theory Spec2Isabelle
  imports Complex_Main "HOL-Library.AList"
begin

section \<open>Spatial audio manager (client side)\<close>

text \<open>
  JavaScript numbers are modelled as real numbers: every statement below about
  gains and coordinates is a statement of exact arithmetic, the idealisation that the
  specification's "within floating-point tolerance" refers to.
\<close>

subsection \<open>Positions and audio sources\<close>

text \<open>A position object \<^verbatim>\<open>{ x, y, z }\<close>.\<close>

record vec3 =
  vx :: real
  vy :: real
  vz :: real

definition origin :: vec3 where
  "origin = \<lparr>vx = 0, vy = 0, vz = 0\<rparr>"

text \<open>
  The entry stored in \<^verbatim>\<open>audioSources\<close> for one peer. Of the Web Audio nodes only the
  values the manager writes are kept: the panner's position (written through
  \<^verbatim>\<open>positionX/Y/Z.value\<close> or through the legacy \<^verbatim>\<open>setPosition\<close>, with the same effect),
  the gain node's \<^verbatim>\<open>gain.value\<close>, the audio element (an opaque handle) and the
  \<^verbatim>\<open>position\<close> field.
\<close>

record audioSource =
  panner_position :: vec3
  gain_value :: real
  audioElement :: nat
  position :: vec3

text \<open>
  The manager object. \<^verbatim>\<open>audioSources\<close> is a JavaScript \<^verbatim>\<open>Map\<close>; it is an association
  list in insertion order, which is the order \<^verbatim>\<open>forEach\<close> visits.
\<close>

record manager =
  audioSources :: "(string \<times> audioSource) list"
  isEnabled :: bool
  masterGainNode :: "real option"
  initialized :: bool

definition constructor :: manager where
  "constructor = \<lparr>audioSources = [], isEnabled = True, masterGainNode = None, initialized = False\<rparr>"

text \<open>
  \<^verbatim>\<open>initialize\<close>: the flag \<open>ok\<close> says whether creating the audio context succeeded.
  On success the master gain node exists (a gain node starts at gain \<open>1\<close>) and
  \<^verbatim>\<open>initialized\<close> is set; the \<^verbatim>\<open>catch\<close> branch clears \<^verbatim>\<open>initialized\<close> and
  returns false. The master gain node is kept as its gain value, \<open>None\<close> for
  \<^verbatim>\<open>null\<close>.
\<close>

definition initialize :: "bool \<Rightarrow> manager \<Rightarrow> bool \<times> manager" where
  "initialize ok m =
     (if ok then (True, m\<lparr>masterGainNode := Some 1, initialized := True\<rparr>)
      else (False, m\<lparr>initialized := False\<rparr>))"

subsection \<open>The gain law\<close>

definition distance :: "vec3 \<Rightarrow> real" where
  "distance p = sqrt (vx p * vx p + vy p * vy p + vz p * vz p)"

definition volumeMultiplier :: "real \<Rightarrow> real" where
  "volumeMultiplier d = max 0.1 (min 1 (1 / (1 + d * 0.1)))"

definition gainFor :: "real \<Rightarrow> real" where
  "gainFor d = 0.5 * volumeMultiplier d"

subsection \<open>Operations on the sources\<close>

text \<open>
  \<^verbatim>\<open>addAudioSource\<close>: \<open>ok\<close> says whether the Web Audio calls inside the \<^verbatim>\<open>try\<close>
  block succeed (\<^verbatim>\<open>createMediaElementSource\<close> throws for an element that is already
  attached); on an exception nothing has been stored yet.
\<close>

definition addAudioSource :: "string \<Rightarrow> nat \<Rightarrow> bool \<Rightarrow> manager \<Rightarrow> bool \<times> manager" where
  "addAudioSource peerId el ok m =
     (if \<not> initialized m \<or> \<not> isEnabled m then (False, m)
      else if \<not> ok then (False, m)
      else (True, m\<lparr>audioSources :=
              AList.update peerId
                \<lparr>panner_position = origin, gain_value = 0.5, audioElement = el, position = origin\<rparr>
                (audioSources m)\<rparr>))"

definition removeAudioSource :: "string \<Rightarrow> manager \<Rightarrow> manager" where
  "removeAudioSource peerId m =
     (case map_of (audioSources m) peerId of
        None \<Rightarrow> m
      | Some sourceData \<Rightarrow> m\<lparr>audioSources := AList.delete peerId (audioSources m)\<rparr>)"

definition updateAudioSourcePosition :: "string \<Rightarrow> vec3 \<Rightarrow> manager \<Rightarrow> manager" where
  "updateAudioSourcePosition peerId p m =
     (case map_of (audioSources m) peerId of
        None \<Rightarrow> m
      | Some sourceData \<Rightarrow>
          if isEnabled m then
            m\<lparr>audioSources :=
                AList.update peerId
                  (sourceData\<lparr>panner_position := \<lparr>vx = vx p, vy = vy p, vz = vz p\<rparr>,
                              position := \<lparr>vx = vx p, vy = vy p, vz = vz p\<rparr>,
                              gain_value := gainFor (distance p)\<rparr>)
                  (audioSources m)\<rparr>
          else m)"

definition setMasterVolume :: "real \<Rightarrow> manager \<Rightarrow> manager" where
  "setMasterVolume volume m =
     (case masterGainNode m of
        None \<Rightarrow> m
      | Some g \<Rightarrow> m\<lparr>masterGainNode := Some volume\<rparr>)"

definition setSourceVolume :: "string \<Rightarrow> real \<Rightarrow> manager \<Rightarrow> manager" where
  "setSourceVolume peerId volume m =
     (case map_of (audioSources m) peerId of
        None \<Rightarrow> m
      | Some sourceData \<Rightarrow>
          m\<lparr>audioSources := AList.update peerId (sourceData\<lparr>gain_value := volume\<rparr>) (audioSources m)\<rparr>)"

text \<open>
  \<^verbatim>\<open>toggleSpatialAudio\<close> flips the flag first and then walks the map; each callback
  goes through \<^verbatim>\<open>updateAudioSourcePosition\<close>, which reads the flag again. In the
  re-enabling branch the callback passes the \<^verbatim>\<open>position\<close> field the entry has when
  it is visited.
\<close>

definition restorePosition :: "string \<Rightarrow> manager \<Rightarrow> manager" where
  "restorePosition peerId m =
     (case map_of (audioSources m) peerId of
        None \<Rightarrow> m
      | Some sourceData \<Rightarrow> updateAudioSourcePosition peerId (position sourceData) m)"

definition toggleSpatialAudio :: "manager \<Rightarrow> bool \<times> manager" where
  "toggleSpatialAudio m =
     (let m1 = m\<lparr>isEnabled := \<not> isEnabled m\<rparr>;
          peers = map fst (audioSources m1);
          m2 = (if \<not> isEnabled m1
                then fold (\<lambda>peerId. updateAudioSourcePosition peerId origin) peers m1
                else fold restorePosition peers m1)
      in (isEnabled m2, m2))"

text \<open>\<^verbatim>\<open>dispose\<close> removes every source and clears \<^verbatim>\<open>initialized\<close>.\<close>

definition dispose :: "manager \<Rightarrow> manager" where
  "dispose m = (fold removeAudioSource (map fst (audioSources m)) m)\<lparr>initialized := False\<rparr>"

subsection \<open>Coordinate transforms\<close>

definition canvasToWorldPosition :: "real \<Rightarrow> real \<Rightarrow> real \<Rightarrow> real \<Rightarrow> vec3" where
  "canvasToWorldPosition canvasX canvasY canvasWidth canvasHeight =
     (let x = (canvasX / canvasWidth) * 2 - 1;
          z = (canvasY / canvasHeight) * 2 - 1;
          y = 0
      in \<lparr>vx = x * 10, vy = y, vz = z * 10\<rparr>)"

definition worldToCanvasPosition :: "real \<Rightarrow> real \<Rightarrow> real \<Rightarrow> real \<Rightarrow> real \<Rightarrow> real \<times> real" where
  "worldToCanvasPosition worldX worldY worldZ canvasWidth canvasHeight =
     (let x = worldX / 10;
          z = worldZ / 10;
          canvasX = (x + 1) * canvasWidth / 2;
          canvasY = (z + 1) * canvasHeight / 2
      in (canvasX, canvasY))"

subsection \<open>Sequences of calls on the manager\<close>

text \<open>
  The calls the room page makes on the manager, as data, so that a property can be stated
  for every sequence of calls.
\<close>

datatype manager_op =
    Add string nat bool
  | Remove string
  | UpdatePosition string vec3
  | SetSourceVolume string real
  | SetMasterVolume real
  | Toggle
  | Initialize bool
  | Dispose

text \<open>One call, keeping the manager and dropping the returned flag.\<close>

fun apply_op :: "manager_op \<Rightarrow> manager \<Rightarrow> manager" where
  "apply_op (Add peerId el ok) m = snd (addAudioSource peerId el ok m)"
| "apply_op (Remove peerId) m = removeAudioSource peerId m"
| "apply_op (UpdatePosition peerId p) m = updateAudioSourcePosition peerId p m"
| "apply_op (SetSourceVolume peerId v) m = setSourceVolume peerId v m"
| "apply_op (SetMasterVolume v) m = setMasterVolume v m"
| "apply_op Toggle m = snd (toggleSpatialAudio m)"
| "apply_op (Initialize ok) m = snd (initialize ok m)"
| "apply_op Dispose m = dispose m"

text \<open>\<^verbatim>\<open>getAudioSourceInfo\<close>: the entry of a peer, \<open>None\<close> for \<^verbatim>\<open>undefined\<close>.\<close>

definition getAudioSourceInfo :: "string \<Rightarrow> manager \<Rightarrow> audioSource option" where
  "getAudioSourceInfo peerId m = map_of (audioSources m) peerId"

text \<open>Two concrete managers: one initialised and then toggled off, with no source; one
  initialised and enabled, holding one source that was moved to \<open>(3, 0, 4)\<close>.\<close>

definition disabled_manager :: manager where
  "disabled_manager = snd (toggleSpatialAudio (snd (initialize True constructor)))"

definition example_manager :: manager where
  "example_manager =
     updateAudioSourcePosition ''p'' \<lparr>vx = 3, vy = 0, vz = 4\<rparr>
       (snd (addAudioSource ''p'' 7 True (snd (initialize True constructor))))"

section \<open>Signaling server\<close>

text \<open>
  The server keeps a table \<^verbatim>\<open>rooms\<close> (room id to a \<^verbatim>\<open>Map\<close> from socket id to user
  record) and registers eight handlers per socket. Handlers run to completion one after
  the other, so the server is a step function on a state, returning the new state and the
  messages emitted.

  What Socket.IO does for the handlers is part of the state: which sockets exist and are
  connected, the fields the handlers store on a socket object, and the rooms of the
  adapter. Socket ids and room names are both strings and share the adapter's name space:
  a socket is put in the adapter room named by its own id when it connects,
  \<^verbatim>\<open>socket.join(r)\<close> adds it to room \<open>r\<close>, and a socket leaves every adapter room
  when it disconnects, before the \<^verbatim>\<open>disconnect\<close> handler runs. A broadcast
  \<^verbatim>\<open>socket.to(r)\<close> addresses the sockets of room \<open>r\<close> and excepts the room named by
  the sender's id, with every socket that is in it.
\<close>

subsection \<open>State and messages\<close>

type_synonym sid = string

text \<open>The record stored per participant in a room's \<^verbatim>\<open>Map\<close>; its \<^verbatim>\<open>position\<close>
  field is \<open>user_position\<close> here, \<open>position\<close> being the field of an audio source.\<close>

record user =
  userId :: int
  username :: string
  user_position :: vec3
  muted :: bool

text \<open>A socket object: Socket.IO's \<^verbatim>\<open>connected\<close> flag and the three fields the
  join handler stores on it (\<open>None\<close> for \<^verbatim>\<open>undefined\<close>).\<close>

record socket =
  connected :: bool
  roomId :: "string option"
  socket_userId :: "int option"
  socket_username :: "string option"

text \<open>The inner \<^verbatim>\<open>Map\<close> of a room is an association list in insertion order, the
  order in which \<^verbatim>\<open>forEach\<close> builds the list of existing users.\<close>

record server =
  sockets :: "sid \<rightharpoonup> socket"
  adapter :: "string \<Rightarrow> sid set"
  rooms :: "string \<rightharpoonup> (sid \<times> user) list"

text \<open>
  The messages the server emits, with the payload fields in the order of the source:
  \<^verbatim>\<open>user-joined\<close>, \<^verbatim>\<open>existing-users\<close>, \<^verbatim>\<open>offer\<close>, \<^verbatim>\<open>answer\<close>,
  \<^verbatim>\<open>ice-candidate\<close>, \<^verbatim>\<open>user-position-update\<close>, \<^verbatim>\<open>user-mute-update\<close> and
  \<^verbatim>\<open>user-left\<close>. Session descriptions and candidates are opaque strings. One emission
  is a message with the set of sockets it is sent to.
\<close>

datatype message =
    UserJoined sid int string vec3
  | ExistingUsers "(sid \<times> user) list"
  | OfferMsg string sid
  | AnswerMsg string sid
  | IceCandidateMsg string sid
  | UserPositionUpdate sid vec3
  | UserMuteUpdate sid bool
  | UserLeft sid "int option" "string option"

type_synonym emission = "sid set \<times> message"

text \<open>The events the server receives; the first argument is the socket they arrive on.\<close>

datatype event =
    Connection sid
  | JoinRoom sid string int string
  | Offer sid string string
  | Answer sid string string
  | IceCandidate sid string string
  | PositionUpdate sid vec3
  | ToggleMute sid bool
  | Disconnect sid

definition init :: server where
  "init = \<lparr>sockets = Map.empty, adapter = (\<lambda>room. {}), rooms = Map.empty\<rparr>"

subsection \<open>Socket.IO primitives\<close>

text \<open>The socket object with a given id; handlers only run for sockets that exist.\<close>

definition socket_of :: "server \<Rightarrow> sid \<Rightarrow> socket" where
  "socket_of s S =
     (case sockets s S of
        Some sk \<Rightarrow> sk
      | None \<Rightarrow> \<lparr>connected = False, roomId = None, socket_userId = None, socket_username = None\<rparr>)"

definition live :: "server \<Rightarrow> sid \<Rightarrow> bool" where
  "live s S = connected (socket_of s S)"

text \<open>
  A new connection: Socket.IO creates the socket and puts it in the adapter room named by
  its id. Ids are never reused: a connection event for an id that was seen before is
  ignored.
\<close>

definition connection :: "sid \<Rightarrow> server \<Rightarrow> server" where
  "connection S s =
     (case sockets s S of
        Some sk \<Rightarrow> s
      | None \<Rightarrow>
          s\<lparr>sockets := (sockets s)(S \<mapsto>
                \<lparr>connected = True, roomId = None, socket_userId = None, socket_username = None\<rparr>),
            adapter := (adapter s)(S := insert S (adapter s S))\<rparr>)"

definition socket_join :: "sid \<Rightarrow> string \<Rightarrow> server \<Rightarrow> server" where
  "socket_join S room s = s\<lparr>adapter := (adapter s)(room := insert S (adapter s room))\<rparr>"

definition close_socket :: "sid \<Rightarrow> server \<Rightarrow> server" where
  "close_socket S s =
     s\<lparr>adapter := (\<lambda>room. adapter s room - {S}),
       sockets := (sockets s)(S \<mapsto> (socket_of s S)\<lparr>connected := False\<rparr>)\<rparr>"

text \<open>
  \<^verbatim>\<open>socket.to(room).emit(...)\<close> is a broadcast to the adapter room \<open>room\<close> with the
  room named by the sender's id as the excepted room: it reaches the sockets of \<open>room\<close>
  that are not in the adapter room of the sender's id. That leaves out the sender, and
  with it every socket that has joined a room named by the sender's id.
  \<^verbatim>\<open>socket.emit(...)\<close> sends to the socket itself.
\<close>

definition to_emit :: "server \<Rightarrow> sid \<Rightarrow> string \<Rightarrow> message \<Rightarrow> emission" where
  "to_emit s S room msg = (adapter s room - adapter s S, msg)"

definition emit :: "sid \<Rightarrow> message \<Rightarrow> emission" where
  "emit S msg = ({S}, msg)"

subsection \<open>Handlers\<close>

text \<open>\<^verbatim>\<open>rooms.get(room)\<close> where the room is known to exist.\<close>

definition get_room :: "server \<Rightarrow> string \<Rightarrow> (sid \<times> user) list" where
  "get_room s room = (case rooms s room of None \<Rightarrow> [] | Some roomUsers \<Rightarrow> roomUsers)"

definition join_room :: "sid \<Rightarrow> string \<Rightarrow> int \<Rightarrow> string \<Rightarrow> server \<Rightarrow> server \<times> emission list" where
  "join_room S room uid uname s =
     (let s1 = socket_join S room s;
          s2 = s1\<lparr>sockets := (sockets s1)(S \<mapsto> (socket_of s1 S)
                  \<lparr>roomId := Some room, socket_userId := Some uid, socket_username := Some uname\<rparr>)\<rparr>;
          s3 = (if rooms s2 room = None then s2\<lparr>rooms := (rooms s2)(room \<mapsto> [])\<rparr> else s2);
          s4 = s3\<lparr>rooms := (rooms s3)(room \<mapsto>
                  AList.update S \<lparr>userId = uid, username = uname, user_position = origin, muted = False\<rparr>
                    (get_room s3 room))\<rparr>;
          joined = to_emit s4 S room (UserJoined S uid uname origin);
          existingUsers = filter (\<lambda>(socketId, u). socketId \<noteq> S) (get_room s4 room)
      in (s4, [joined, emit S (ExistingUsers existingUsers)]))"

definition offer :: "sid \<Rightarrow> string \<Rightarrow> string \<Rightarrow> server \<Rightarrow> server \<times> emission list" where
  "offer S target data s = (s, [to_emit s S target (OfferMsg data S)])"

definition answer :: "sid \<Rightarrow> string \<Rightarrow> string \<Rightarrow> server \<Rightarrow> server \<times> emission list" where
  "answer S target data s = (s, [to_emit s S target (AnswerMsg data S)])"

definition ice_candidate :: "sid \<Rightarrow> string \<Rightarrow> string \<Rightarrow> server \<Rightarrow> server \<times> emission list" where
  "ice_candidate S target data s = (s, [to_emit s S target (IceCandidateMsg data S)])"

text \<open>
  The guard \<^verbatim>\<open>socket.roomId && rooms.has(socket.roomId)\<close>: an undefined room id and the
  empty string are both falsy.
\<close>

definition position_update :: "sid \<Rightarrow> vec3 \<Rightarrow> server \<Rightarrow> server \<times> emission list" where
  "position_update S p s =
     (case roomId (socket_of s S) of
        None \<Rightarrow> (s, [])
      | Some room \<Rightarrow>
          if room = [] then (s, [])
          else (case rooms s room of
                  None \<Rightarrow> (s, [])
                | Some roomUsers \<Rightarrow>
                    (case map_of roomUsers S of
                       None \<Rightarrow> (s, [])
                     | Some u \<Rightarrow>
                         (s\<lparr>rooms := (rooms s)(room \<mapsto> AList.update S (u\<lparr>user_position := p\<rparr>) roomUsers)\<rparr>,
                          [to_emit s S room (UserPositionUpdate S p)]))))"

definition toggle_mute :: "sid \<Rightarrow> bool \<Rightarrow> server \<Rightarrow> server \<times> emission list" where
  "toggle_mute S m s =
     (case roomId (socket_of s S) of
        None \<Rightarrow> (s, [])
      | Some room \<Rightarrow>
          if room = [] then (s, [])
          else (case rooms s room of
                  None \<Rightarrow> (s, [])
                | Some roomUsers \<Rightarrow>
                    (case map_of roomUsers S of
                       None \<Rightarrow> (s, [])
                     | Some u \<Rightarrow>
                         (s\<lparr>rooms := (rooms s)(room \<mapsto> AList.update S (u\<lparr>muted := m\<rparr>) roomUsers)\<rparr>,
                          [to_emit s S room (UserMuteUpdate S m)]))))"

text \<open>The \<^verbatim>\<open>disconnect\<close> handler; it runs on the state \<open>close_socket\<close> leaves.\<close>

definition disconnect :: "sid \<Rightarrow> server \<Rightarrow> server \<times> emission list" where
  "disconnect S s =
     (case roomId (socket_of s S) of
        None \<Rightarrow> (s, [])
      | Some room \<Rightarrow>
          if room = [] then (s, [])
          else (case rooms s room of
                  None \<Rightarrow> (s, [])
                | Some roomUsers \<Rightarrow>
                    (let roomUsers' = AList.delete S roomUsers
                     in if length roomUsers' = 0
                        then (s\<lparr>rooms := (rooms s)(room := None)\<rparr>, [])
                        else (s\<lparr>rooms := (rooms s)(room \<mapsto> roomUsers')\<rparr>,
                              [to_emit s S room
                                 (UserLeft S (socket_userId (socket_of s S)) (socket_username (socket_of s S)))]))))"

subsection \<open>The server as a transition system\<close>

text \<open>Handlers are registered on a socket when it connects and run only while it is
  connected.\<close>

fun step :: "server \<Rightarrow> event \<Rightarrow> server \<times> emission list" where
  "step s (Connection S) = (connection S s, [])"
| "step s (JoinRoom S room uid uname) = (if live s S then join_room S room uid uname s else (s, []))"
| "step s (Offer S target data) = (if live s S then offer S target data s else (s, []))"
| "step s (Answer S target data) = (if live s S then answer S target data s else (s, []))"
| "step s (IceCandidate S target data) = (if live s S then ice_candidate S target data s else (s, []))"
| "step s (PositionUpdate S p) = (if live s S then position_update S p s else (s, []))"
| "step s (ToggleMute S m) = (if live s S then toggle_mute S m s else (s, []))"
| "step s (Disconnect S) = (if live s S then disconnect S (close_socket S s) else (s, []))"

fun run :: "server \<Rightarrow> event list \<Rightarrow> server \<times> emission list" where
  "run s [] = (s, [])"
| "run s (e # es) =
     (case step s e of (s1, out1) \<Rightarrow> (case run s1 es of (s2, out2) \<Rightarrow> (s2, out1 @ out2)))"

text \<open>The participant set of a room in the registry (empty for an absent room), and the
  messages one socket receives from a list of emissions, in order.\<close>

definition members :: "server \<Rightarrow> string \<Rightarrow> sid set" where
  "members s room = fst ` set (get_room s room)"

definition delivered :: "emission list \<Rightarrow> sid \<Rightarrow> message list" where
  "delivered out T = map snd (filter (\<lambda>em. T \<in> fst em) out)"

text \<open>The states the server can be in: those reached from the initial state by events.\<close>

inductive reachable :: "server \<Rightarrow> bool" where
  reachable_init: "reachable init"
| reachable_step: "reachable s \<Longrightarrow> reachable (fst (step s e))"

text \<open>
  Invariants of the reachable states: no room of the registry is empty; a connected socket
  is a participant of the room its \<^verbatim>\<open>roomId\<close> names; a participant is a socket that
  exists and has a \<^verbatim>\<open>roomId\<close>; a socket in an adapter room is connected and is the
  socket of that name or a participant of the registry room of that name; a connected
  socket is in the adapter room of its id and of every room it is a participant of.
\<close>

definition inv_nonempty :: "server \<Rightarrow> bool" where
  "inv_nonempty s = (\<forall>room. rooms s room \<noteq> Some [])"

definition inv_current :: "server \<Rightarrow> bool" where
  "inv_current s = (\<forall>S room. live s S \<and> roomId (socket_of s S) = Some room \<longrightarrow> S \<in> members s room)"

definition inv_known :: "server \<Rightarrow> bool" where
  "inv_known s = (\<forall>S room. S \<in> members s room \<longrightarrow> sockets s S \<noteq> None \<and> roomId (socket_of s S) \<noteq> None)"

definition inv_adapter :: "server \<Rightarrow> bool" where
  "inv_adapter s = (\<forall>S room. S \<in> adapter s room \<longrightarrow> live s S \<and> (S = room \<or> S \<in> members s room))"

definition inv_live :: "server \<Rightarrow> bool" where
  "inv_live s = (\<forall>S. live s S \<longrightarrow> S \<in> adapter s S \<and> (\<forall>room. S \<in> members s room \<longrightarrow> S \<in> adapter s room))"

subsection \<open>Signaling messages and concrete runs\<close>

text \<open>
  The three signaling handlers differ only in the event name and in the name of the field
  that carries the sender's id, so a forward is described once: the kind with its payload,
  the event it arrives as and the message it leaves as.
\<close>

datatype signal = SigOffer string | SigAnswer string | SigCandidate string

fun signal_event :: "sid \<Rightarrow> string \<Rightarrow> signal \<Rightarrow> event" where
  "signal_event S target (SigOffer data) = Offer S target data"
| "signal_event S target (SigAnswer data) = Answer S target data"
| "signal_event S target (SigCandidate data) = IceCandidate S target data"

fun signal_message :: "sid \<Rightarrow> signal \<Rightarrow> message" where
  "signal_message S (SigOffer data) = OfferMsg data S"
| "signal_message S (SigAnswer data) = AnswerMsg data S"
| "signal_message S (SigCandidate data) = IceCandidateMsg data S"

text \<open>
  Concrete states: one connected socket that has not joined; two sockets in room
  \<open>r1\<close>; one socket in the room whose id is the empty string; two
  sockets \<open>a\<close> and \<open>b\<close> in the room whose id is the socket id \<open>a\<close>; and a socket
  \<open>b\<close> in the room whose id is the id of the disconnected socket \<open>c\<close>. And a run in
  which one socket joins \<open>r1\<close> and then \<open>r2\<close>.
\<close>

definition fresh_socket :: server where
  "fresh_socket = fst (run init [Connection ''a''])"

definition two_joined :: server where
  "two_joined = fst (run init [Connection ''a'', Connection ''b'',
     JoinRoom ''a'' ''r1'' 1 ''alice'', JoinRoom ''b'' ''r1'' 2 ''bob''])"

definition empty_id_joined :: server where
  "empty_id_joined = fst (run init [Connection ''a'', JoinRoom ''a'' [] 1 ''alice''])"

definition own_id_room :: server where
  "own_id_room = fst (run init [Connection ''a'', Connection ''b'',
     JoinRoom ''b'' ''a'' 2 ''bob'', JoinRoom ''a'' ''a'' 1 ''alice''])"

definition gone_id_room :: server where
  "gone_id_room = fst (run init [Connection ''c'', Disconnect ''c'', Connection ''a'',
     Connection ''b'', JoinRoom ''b'' ''c'' 2 ''bob''])"

definition rejoin_events :: "event list" where
  "rejoin_events = [Connection ''a'', JoinRoom ''a'' ''r1'' 1 ''alice'', JoinRoom ''a'' ''r2'' 1 ''alice'']"

text \<open>
  The runs in which every join is the first join of its socket and names a non-empty room
  id, and the property the registry has on them: nobody has the empty room id, and the
  participants of a room are the connected sockets whose \<^verbatim>\<open>roomId\<close> is that room.
\<close>

fun first_join :: "server \<Rightarrow> event \<Rightarrow> bool" where
  "first_join s (JoinRoom S room uid uname) = (roomId (socket_of s S) = None \<and> room \<noteq> [])"
| "first_join s e = True"

inductive reachable_once :: "server \<Rightarrow> bool" where
  once_init: "reachable_once init"
| once_step: "reachable_once s \<Longrightarrow> first_join s e \<Longrightarrow> reachable_once (fst (step s e))"

definition exact_registry :: "server \<Rightarrow> bool" where
  "exact_registry s =
     ((\<forall>S. roomId (socket_of s S) \<noteq> Some [])
      \<and> (\<forall>S room. S \<in> members s room \<longleftrightarrow> live s S \<and> roomId (socket_of s S) = Some room))"

section \<open>Properties of the spatial audio manager\<close>

subsection \<open>The gain law\<close>

lemma volumeMultiplier_antimono:
  assumes "0 \<le> d" "d \<le> e"
  shows "volumeMultiplier e \<le> volumeMultiplier d"
proof -
  have "1 / (1 + e * 0.1) \<le> 1 / (1 + d * 0.1)"
    using assms by (intro divide_left_mono) (auto intro: mult_pos_pos add_pos_nonneg)
  then show ?thesis
    unfolding volumeMultiplier_def by (intro max.mono min.mono) auto
qed

lemma volumeMultiplier_range: "0.1 \<le> volumeMultiplier d \<and> volumeMultiplier d \<le> 1"
  unfolding volumeMultiplier_def by auto

lemma volumeMultiplier_far: "90 \<le> d \<Longrightarrow> volumeMultiplier d = 0.1"
  unfolding volumeMultiplier_def by (auto simp: max_def min_def field_simps)

text \<open>
  Claim C1, as the code has it. For every distance \<open>d \<ge> 0\<close> the gain written on a position
  update is non-increasing in the distance, lies in \<open>[0.05, 0.5]\<close>, is \<open>0.5\<close> at distance
  \<open>0\<close>, and sits on the floor \<open>0.05\<close> from distance \<open>90\<close> on. The floor is
  \<open>0.5 * 0.1\<close>: the clamp to \<open>[0.1, 1]\<close> is applied before the multiplication by the base
  volume \<open>0.5\<close>.
\<close>

theorem gainFor_law:
  assumes "0 \<le> d" and "d \<le> e"
  shows "gainFor e \<le> gainFor d \<and> 0.05 \<le> gainFor d \<and> gainFor d \<le> 0.5 \<and> gainFor 0 = 0.5
         \<and> (90 \<le> d \<longrightarrow> gainFor d = 0.05)"
proof -
  have "gainFor e \<le> gainFor d"
    using volumeMultiplier_antimono [OF assms] by (simp add: gainFor_def)
  moreover have "0.05 \<le> gainFor d" "gainFor d \<le> 0.5"
    using volumeMultiplier_range [of d] by (simp_all add: gainFor_def)
  moreover have "gainFor 0 = 0.5"
    by (simp add: gainFor_def volumeMultiplier_def)
  moreover have "90 \<le> d \<longrightarrow> gainFor d = 0.05"
    by (simp add: gainFor_def volumeMultiplier_far)
  ultimately show ?thesis by blast
qed

text \<open>The gain law at the distances \<open>3\<close> and \<open>100\<close>.\<close>

theorem gainFor_law_witness:
  "gainFor 100 \<le> gainFor 3 \<and> 0.05 \<le> gainFor 3 \<and> gainFor 3 \<le> 0.5 \<and> gainFor 0 = 0.5
   \<and> gainFor 100 = 0.05"
  using gainFor_law [of 3 100] gainFor_law [of 100 100] by simp

text \<open>
  Claim C1 as worded asks for a gain in \<open>[0.1, 0.5]\<close>. At distance \<open>100\<close> the gain is
  \<open>0.05\<close>, below \<open>0.1\<close>.
\<close>

theorem gainFor_floor_counterexample:
  "(0::real) \<le> 100 \<and> \<not> (0.1 \<le> gainFor 100 \<and> gainFor 100 \<le> 0.5)"
  by (simp add: gainFor_def volumeMultiplier_def)

subsection \<open>Canvas and world coordinates\<close>

lemma canvas_roundtrip_eq:
  assumes "W \<noteq> 0" and "H \<noteq> 0"
  shows "worldToCanvasPosition (vx (canvasToWorldPosition px py W H)) wy
           (vz (canvasToWorldPosition px py W H)) W H = (px, py)"
  using assms by (simp add: canvasToWorldPosition_def worldToCanvasPosition_def Let_def field_simps)

lemma canvas_world_bound:
  assumes "0 < (W::real)" and "0 \<le> px" and "px \<le> W"
  shows "\<bar>(px / W * 2 - 1) * 10\<bar> \<le> 10"
proof -
  have "0 \<le> px / W" and "px / W \<le> 1" using assms by simp_all
  then
  show ?thesis by (simp add: abs_le_iff)
qed

text \<open>
  Claim C5. For a canvas of width \<open>W > 0\<close> and height \<open>H > 0\<close> and a pixel position
  with \<open>0 \<le> px \<le> W\<close> and \<open>0 \<le> py \<le> H\<close>, mapping the pixel to the world and back
  gives the pixel again. The world point has \<open>y = 0\<close>, its \<open>x\<close> and \<open>z\<close> are the
  normalised coordinates \<open>2 * px / W - 1\<close> and \<open>2 * py / H - 1\<close> scaled by \<open>10\<close>, and
  both lie within \<open>10\<close> of the origin.
\<close>

theorem canvas_roundtrip:
  assumes "0 < W" and "0 < H" and "0 \<le> px" and "px \<le> W" and "0 \<le> py" and "py \<le> H"
  shows "(let w = canvasToWorldPosition px py W H
          in worldToCanvasPosition (vx w) (vy w) (vz w) W H = (px, py)
             \<and> vx w = 10 * (2 * px / W - 1) \<and> vy w = 0 \<and> vz w = 10 * (2 * py / H - 1)
             \<and> \<bar>vx w\<bar> \<le> 10 \<and> \<bar>vz w\<bar> \<le> 10)"
proof -
  have "worldToCanvasPosition (vx (canvasToWorldPosition px py W H)) (vy (canvasToWorldPosition px py W H))
           (vz (canvasToWorldPosition px py W H)) W H = (px, py)"
    using assms by (intro canvas_roundtrip_eq) auto
  moreover have "\<bar>vx (canvasToWorldPosition px py W H)\<bar> \<le> 10"
    using canvas_world_bound [of W px] assms by (simp add: canvasToWorldPosition_def)
  moreover have "\<bar>vz (canvasToWorldPosition px py W H)\<bar> \<le> 10"
    using canvas_world_bound [of H py] assms by (simp add: canvasToWorldPosition_def)
  moreover have "vx (canvasToWorldPosition px py W H) = 10 * (2 * px / W - 1)"
    "vy (canvasToWorldPosition px py W H) = 0"
    "vz (canvasToWorldPosition px py W H) = 10 * (2 * py / H - 1)"
    by (simp_all add: canvasToWorldPosition_def)
  ultimately show ?thesis by (simp only: Let_def)
qed

text \<open>The round trip on an \<open>800 \<times> 600\<close> canvas at the pixel \<open>(200, 150)\<close>.\<close>

theorem canvas_roundtrip_witness:
  "(let w = canvasToWorldPosition 200 150 800 600
    in worldToCanvasPosition (vx w) (vy w) (vz w) 800 600 = (200, 150) \<and> vx w = -5 \<and> vy w = 0 \<and> vz w = -5)"
  using canvas_roundtrip [of 800 600 200 150] by (simp add: Let_def worldToCanvasPosition_def)

subsection \<open>Sources while spatial audio is off\<close>

lemma update_disabled: "\<not> isEnabled m \<Longrightarrow> updateAudioSourcePosition peerId p m = m"
  by (simp add: updateAudioSourcePosition_def split: option.splits)

lemma fold_update_disabled:
  "\<not> isEnabled m \<Longrightarrow> fold (\<lambda>peerId. updateAudioSourcePosition peerId p) peers m = m"
  by (induction peers) (simp_all add: update_disabled)

lemma toggle_off_unchanged:
  "isEnabled m \<Longrightarrow> toggleSpatialAudio m = (False, m\<lparr>isEnabled := False\<rparr>)"
  by (simp add: toggleSpatialAudio_def Let_def fold_update_disabled)

lemma info_update:
  "getAudioSourceInfo q (updateAudioSourcePosition peerId p m) = None \<longleftrightarrow> getAudioSourceInfo q m = None"
  by (auto simp: getAudioSourceInfo_def updateAudioSourcePosition_def update_conv' split: option.splits)

lemma info_restore:
  "getAudioSourceInfo q (restorePosition peerId m) = None \<longleftrightarrow> getAudioSourceInfo q m = None"
  by (simp add: restorePosition_def info_update split: option.splits)

lemma info_fold:
  assumes "\<And>x m. getAudioSourceInfo q (f x m) = None \<longleftrightarrow> getAudioSourceInfo q m = None"
  shows "getAudioSourceInfo q (fold f xs m) = None \<longleftrightarrow> getAudioSourceInfo q m = None"
  by (induction xs arbitrary: m) (simp_all add: assms)

lemma info_sources_cong:
  "audioSources m' = audioSources m \<Longrightarrow> getAudioSourceInfo q m' = getAudioSourceInfo q m"
  by (simp add: getAudioSourceInfo_def)

lemma info_toggle:
  "getAudioSourceInfo q (snd (toggleSpatialAudio m)) = None \<longleftrightarrow> getAudioSourceInfo q m = None"
proof -
  have "getAudioSourceInfo q (m\<lparr>isEnabled := b\<rparr>) = getAudioSourceInfo q m" for b
    by (simp add: getAudioSourceInfo_def)
  then show ?thesis
    by (simp add: toggleSpatialAudio_def Let_def info_fold info_update info_restore)
qed

lemma info_remove:
  "getAudioSourceInfo q m = None \<Longrightarrow> getAudioSourceInfo q (removeAudioSource peerId m) = None"
  by (auto simp: removeAudioSource_def getAudioSourceInfo_def delete_conv' split: option.splits)

lemma info_fold_remove:
  "getAudioSourceInfo q m = None \<Longrightarrow> getAudioSourceInfo q (fold removeAudioSource peers m) = None"
  by (induction peers arbitrary: m) (simp_all add: info_remove)

lemma info_dispose:
  assumes "getAudioSourceInfo q m = None"
  shows "getAudioSourceInfo q (dispose m) = None"
proof -
  have "getAudioSourceInfo q (dispose m) =
          getAudioSourceInfo q (fold removeAudioSource (map fst (audioSources m)) m)"
    by (simp add: dispose_def getAudioSourceInfo_def)
  with assms show ?thesis by (simp add: info_fold_remove)
qed

lemma info_apply_op:
  assumes "getAudioSourceInfo q m = None" and "\<forall>el ok. op \<noteq> Add q el ok"
  shows "getAudioSourceInfo q (apply_op op m) = None"
proof (cases op)
  case (Add peerId el ok)
  with assms show ?thesis
    by (auto simp: addAudioSource_def getAudioSourceInfo_def update_conv')
next
  case (Remove peerId)
  with assms show ?thesis by (simp add: info_remove)
next
  case (UpdatePosition peerId p)
  with assms show ?thesis by (simp add: info_update)
next
  case (SetSourceVolume peerId v)
  with assms show ?thesis
    by (auto simp: setSourceVolume_def getAudioSourceInfo_def update_conv' split: option.splits)
next
  case (SetMasterVolume v)
  with assms show ?thesis
    by (simp add: setMasterVolume_def getAudioSourceInfo_def split: option.splits)
next
  case Toggle
  with assms show ?thesis by (simp add: info_toggle)
next
  case (Initialize ok)
  with assms show ?thesis by (simp add: initialize_def getAudioSourceInfo_def)
next
  case Dispose
  with assms show ?thesis by (simp add: info_dispose)
qed

lemma info_fold_apply_op:
  assumes "getAudioSourceInfo q m = None" and "\<forall>op \<in> set ops. \<forall>el ok. op \<noteq> Add q el ok"
  shows "getAudioSourceInfo q (fold apply_op ops m) = None"
  using assms by (induction ops arbitrary: m) (simp_all add: info_apply_op)

text \<open>
  Claim C10. While the manager is uninitialised or spatial audio is toggled off,
  \<^verbatim>\<open>addAudioSource\<close> returns false and leaves the manager, and so the map of sources,
  as it was. A peer that had no source then has none after spatial audio is toggled again,
  and none after any sequence of calls that does not call \<^verbatim>\<open>addAudioSource\<close> for that
  peer once more: no other operation creates a source.
\<close>

theorem add_while_disabled:
  assumes "\<not> initialized m \<or> \<not> isEnabled m"
    and "getAudioSourceInfo peerId m = None"
    and "\<forall>op \<in> set ops. \<forall>el' ok'. op \<noteq> Add peerId el' ok'"
  shows "addAudioSource peerId el ok m = (False, m)
         \<and> getAudioSourceInfo peerId (snd (toggleSpatialAudio (snd (addAudioSource peerId el ok m)))) = None
         \<and> getAudioSourceInfo peerId (fold apply_op ops (snd (addAudioSource peerId el ok m))) = None"
proof -
  have a: "addAudioSource peerId el ok m = (False, m)"
    using assms(1) by (auto simp: addAudioSource_def)
  moreover have "getAudioSourceInfo peerId (snd (toggleSpatialAudio m)) = None"
    using assms(2) by (simp add: info_toggle)
  moreover have "getAudioSourceInfo peerId (fold apply_op ops m) = None"
    using assms(2,3) by (rule info_fold_apply_op)
  ultimately show ?thesis by simp
qed

text \<open>A manager toggled off rejects the source of peer \<open>p\<close>; toggling on again and a
  position update leave the peer without a source.\<close>

theorem add_while_disabled_witness:
  "initialized disabled_manager \<and> \<not> isEnabled disabled_manager
   \<and> getAudioSourceInfo ''p'' disabled_manager = None
   \<and> addAudioSource ''p'' 7 True disabled_manager = (False, disabled_manager)
   \<and> isEnabled (snd (toggleSpatialAudio disabled_manager))
   \<and> getAudioSourceInfo ''p'' (snd (toggleSpatialAudio (snd (addAudioSource ''p'' 7 True disabled_manager)))) = None
   \<and> getAudioSourceInfo ''p'' (fold apply_op [Toggle, UpdatePosition ''p'' origin]
        (snd (addAudioSource ''p'' 7 True disabled_manager))) = None"
proof -
  have h0: "initialized disabled_manager" and h0': "\<not> isEnabled disabled_manager"
    by (simp_all add: disabled_manager_def toggleSpatialAudio_def initialize_def constructor_def Let_def)
  from h0' have h1: "\<not> initialized disabled_manager \<or> \<not> isEnabled disabled_manager" ..
  have h2: "getAudioSourceInfo ''p'' disabled_manager = None"
    by (simp add: disabled_manager_def toggleSpatialAudio_def initialize_def constructor_def Let_def
        getAudioSourceInfo_def)
  have h3: "\<forall>op \<in> set [Toggle, UpdatePosition ''p'' origin]. \<forall>el' ok'. op \<noteq> Add ''p'' el' ok'"
    by simp
  have h4: "isEnabled (snd (toggleSpatialAudio disabled_manager))"
    by (simp add: disabled_manager_def toggleSpatialAudio_def initialize_def constructor_def Let_def)
  show ?thesis
    using add_while_disabled [OF h1 h2 h3, of 7 True] h0 h0' h2 h4 by blast
qed

subsection \<open>Toggling spatial audio\<close>

text \<open>
  Claim C2 asks that toggling off puts the panner of every source at the origin. The
  code flips \<^verbatim>\<open>isEnabled\<close> before it walks the sources, and
  \<^verbatim>\<open>updateAudioSourcePosition\<close> does nothing while the flag is false
  (\<open>toggle_off_unchanged\<close>): with one source at \<open>(3, 0, 4)\<close>, the toggle returns false
  and the panner is still at \<open>(3, 0, 4)\<close>, not at the origin.
\<close>

theorem toggle_off_keeps_panner_position:
  "isEnabled example_manager
   \<and> map_option panner_position (getAudioSourceInfo ''p'' example_manager) = Some \<lparr>vx = 3, vy = 0, vz = 4\<rparr>
   \<and> fst (toggleSpatialAudio example_manager) = False
   \<and> map_option panner_position (getAudioSourceInfo ''p'' (snd (toggleSpatialAudio example_manager)))
       = Some \<lparr>vx = 3, vy = 0, vz = 4\<rparr>
   \<and> map_option panner_position (getAudioSourceInfo ''p'' (snd (toggleSpatialAudio example_manager)))
       \<noteq> Some origin"
  by (simp add: example_manager_def toggleSpatialAudio_def updateAudioSourcePosition_def
      addAudioSource_def initialize_def constructor_def getAudioSourceInfo_def origin_def Let_def)

section \<open>Properties of the signaling server\<close>

subsection \<open>Effect of each handler on the observables\<close>

lemma members_alt: "members s room = (case rooms s room of None \<Rightarrow> {} | Some m \<Rightarrow> fst ` set m)"
  by (simp add: members_def get_room_def split: option.splits)

lemma delete_empty_iff: "AList.delete k al = [] \<longleftrightarrow> fst ` set al \<subseteq> {k}"
  by (induction al) (auto simp: AList.delete_eq)

lemma dom_delete: "fst ` set (AList.delete k al) = fst ` set al - {k}"
  by (induction al) (auto simp: AList.delete_eq)

lemma map_of_Some_dom: "map_of al k = Some v \<Longrightarrow> k \<in> fst ` set al"
  by (metis domI dom_map_of_conv_image_fst)

lemma update_not_Nil: "AList.update k v al \<noteq> []"
  by (cases al) auto

text \<open>connection\<close>

lemma connection_rooms [simp]: "rooms (connection S s) = rooms s"
  by (simp add: connection_def split: option.splits)

lemma connection_members [simp]: "members (connection S s) room = members s room"
  by (simp add: members_alt)

lemma connection_adapter:
  "adapter (connection S s) room =
     (if sockets s S = None \<and> room = S then insert S (adapter s room) else adapter s room)"
  by (simp add: connection_def split: option.splits)

lemma connection_live: "live (connection S s) T \<longleftrightarrow> live s T \<or> (T = S \<and> sockets s S = None)"
  by (auto simp: connection_def live_def socket_of_def split: option.splits)

lemma connection_roomId:
  "roomId (socket_of (connection S s) T) = roomId (socket_of s T)"
  by (auto simp: connection_def socket_of_def split: option.splits)

lemma connection_sockets: "sockets (connection S s) T \<noteq> None \<longleftrightarrow> sockets s T \<noteq> None \<or> T = S"
  by (auto simp: connection_def split: option.splits)

text \<open>join-room\<close>

lemma join_room_rooms:
  "rooms (fst (join_room S room uid uname s)) r =
     (if r = room
      then Some (AList.update S \<lparr>userId = uid, username = uname, user_position = origin, muted = False\<rparr>
                  (get_room s room))
      else rooms s r)"
  by (simp add: join_room_def Let_def socket_join_def get_room_def split: option.splits)

lemma join_room_members:
  "members (fst (join_room S room uid uname s)) r =
     (if r = room then insert S (members s r) else members s r)"
  by (simp add: members_alt join_room_rooms dom_update get_room_def split: option.splits)

lemma join_room_adapter:
  "adapter (fst (join_room S room uid uname s)) r =
     (if r = room then insert S (adapter s r) else adapter s r)"
  by (simp add: join_room_def Let_def socket_join_def)

lemma join_room_live: "live s S \<Longrightarrow> live (fst (join_room S room uid uname s)) T = live s T"
  by (simp add: join_room_def Let_def socket_join_def live_def socket_of_def split: option.splits)

lemma join_room_roomId:
  "roomId (socket_of (fst (join_room S room uid uname s)) T) =
     (if T = S then Some room else roomId (socket_of s T))"
  by (simp add: join_room_def Let_def socket_join_def socket_of_def split: option.splits)

lemma join_room_sockets: "sockets (fst (join_room S room uid uname s)) T \<noteq> None \<longleftrightarrow> sockets s T \<noteq> None \<or> T = S"
  by (simp add: join_room_def Let_def socket_join_def)

text \<open>position-update and toggle-mute\<close>

lemma position_update_frame:
  "sockets (fst (position_update S p s)) = sockets s" "adapter (fst (position_update S p s)) = adapter s"
  by (simp_all add: position_update_def split: option.splits)

lemma position_update_members: "members (fst (position_update S p s)) r = members s r"
  by (auto simp: members_alt position_update_def dom_update dest: map_of_Some_dom split: option.splits)

lemma position_update_nonempty: "rooms (fst (position_update S p s)) r = Some [] \<longleftrightarrow> rooms s r = Some []"
  by (auto simp: position_update_def update_not_Nil split: option.splits)

lemma toggle_mute_frame:
  "sockets (fst (toggle_mute S m s)) = sockets s" "adapter (fst (toggle_mute S m s)) = adapter s"
  by (simp_all add: toggle_mute_def split: option.splits)

lemma toggle_mute_members: "members (fst (toggle_mute S m s)) r = members s r"
  by (auto simp: members_alt toggle_mute_def dom_update dest: map_of_Some_dom split: option.splits)

lemma toggle_mute_nonempty: "rooms (fst (toggle_mute S m s)) r = Some [] \<longleftrightarrow> rooms s r = Some []"
  by (auto simp: toggle_mute_def update_not_Nil split: option.splits)

text \<open>disconnect\<close>

lemma close_socket_rooms [simp]: "rooms (close_socket S s) = rooms s"
  by (simp add: close_socket_def)

lemma close_socket_members [simp]: "members (close_socket S s) r = members s r"
  by (simp add: members_alt)

lemma close_socket_adapter [simp]: "adapter (close_socket S s) r = adapter s r - {S}"
  by (simp add: close_socket_def)

lemma close_socket_live: "live (close_socket S s) T \<longleftrightarrow> live s T \<and> T \<noteq> S"
  by (simp add: close_socket_def live_def socket_of_def)

lemma close_socket_roomId [simp]: "roomId (socket_of (close_socket S s) T) = roomId (socket_of s T)"
  by (simp add: close_socket_def socket_of_def split: option.splits)

lemma close_socket_sockets: "sockets (close_socket S s) T \<noteq> None \<longleftrightarrow> sockets s T \<noteq> None \<or> T = S"
  by (simp add: close_socket_def)

lemma disconnect_frame:
  "sockets (fst (disconnect S s)) = sockets s" "adapter (fst (disconnect S s)) = adapter s"
  by (simp_all add: disconnect_def Let_def split: option.splits)

lemma disconnect_members:
  "members (fst (disconnect S s)) r =
     (if roomId (socket_of s S) = Some r \<and> r \<noteq> [] then members s r - {S} else members s r)"
  by (auto simp: members_alt disconnect_def Let_def dom_delete delete_empty_iff split: option.splits)

lemma disconnect_nonempty:
  "rooms s r \<noteq> Some [] \<Longrightarrow> rooms (fst (disconnect S s)) r \<noteq> Some []"
  by (auto simp: disconnect_def Let_def split: option.splits)

lemma live_frame: "sockets s' = sockets s \<Longrightarrow> live s' = live s"
  by (auto simp: live_def socket_of_def fun_eq_iff)

lemma roomId_frame: "sockets s' = sockets s \<Longrightarrow> socket_of s' = socket_of s"
  by (auto simp: socket_of_def fun_eq_iff)

subsection \<open>Invariants of the reachable states\<close>

lemma signal_fst [simp]:
  "fst (offer S t d s) = s" "fst (answer S t d s) = s" "fst (ice_candidate S t d s) = s"
  by (simp_all add: offer_def answer_def ice_candidate_def)

lemma socket_of_None: "sockets s S = None \<Longrightarrow> roomId (socket_of s S) = None"
  by (simp add: socket_of_def)

lemma inv_nonempty_step:
  assumes "inv_nonempty s"
  shows "inv_nonempty (fst (step s e))"
  using assms unfolding inv_nonempty_def
  by (cases e)
    (auto simp: join_room_rooms update_not_Nil position_update_nonempty toggle_mute_nonempty
      dest: disconnect_nonempty [where s = "close_socket S s" for S, simplified])

lemma inv_current_step:
  assumes "inv_current s"
  shows "inv_current (fst (step s e))"
proof (cases e)
  case (Connection S)
  with assms show ?thesis
    unfolding inv_current_def
    by (auto simp: connection_live connection_roomId socket_of_None)
next
  case (JoinRoom S room uid uname)
  with assms show ?thesis
    unfolding inv_current_def
    by (auto simp: join_room_live join_room_roomId join_room_members)
next
  case (PositionUpdate S p)
  with assms show ?thesis
    unfolding inv_current_def
    by (auto simp: position_update_members live_frame [OF position_update_frame(1)]
        roomId_frame [OF position_update_frame(1)])
next
  case (ToggleMute S m)
  with assms show ?thesis
    unfolding inv_current_def
    by (auto simp: toggle_mute_members live_frame [OF toggle_mute_frame(1)]
        roomId_frame [OF toggle_mute_frame(1)])
next
  case (Disconnect S)
  with assms show ?thesis
    unfolding inv_current_def
    by (auto simp: disconnect_members live_frame [OF disconnect_frame(1)]
        roomId_frame [OF disconnect_frame(1)] close_socket_live)
qed (use assms in simp_all)

lemma inv_known_step:
  assumes "inv_known s"
  shows "inv_known (fst (step s e))"
proof (cases e)
  case (Connection S)
  with assms show ?thesis
    unfolding inv_known_def
    by (auto simp: connection_sockets connection_roomId simp del: not_None_eq)
next
  case (JoinRoom S room uid uname)
  with assms show ?thesis
    unfolding inv_known_def
    by (auto simp: join_room_sockets join_room_roomId join_room_members simp del: not_None_eq split: if_splits)
next
  case (PositionUpdate S p)
  with assms show ?thesis
    unfolding inv_known_def
    by (auto simp: position_update_members position_update_frame
        roomId_frame [OF position_update_frame(1)] simp del: not_None_eq)
next
  case (ToggleMute S m)
  with assms show ?thesis
    unfolding inv_known_def
    by (auto simp: toggle_mute_members toggle_mute_frame
        roomId_frame [OF toggle_mute_frame(1)] simp del: not_None_eq)
next
  case (Disconnect S)
  with assms show ?thesis
    unfolding inv_known_def
    by (auto simp: disconnect_members disconnect_frame close_socket_sockets
        roomId_frame [OF disconnect_frame(1)] simp del: not_None_eq split: if_splits)
qed (use assms in simp_all)

lemma inv_adapter_step:
  assumes "inv_adapter s"
  shows "inv_adapter (fst (step s e))"
proof (cases e)
  case (Connection S)
  with assms show ?thesis
    unfolding inv_adapter_def
    by (auto simp: connection_adapter connection_live split: if_splits)
next
  case (JoinRoom S room uid uname)
  with assms show ?thesis
    unfolding inv_adapter_def
    by (auto simp: join_room_adapter join_room_live join_room_members split: if_splits)
next
  case (PositionUpdate S p)
  with assms show ?thesis
    unfolding inv_adapter_def
    by (auto simp: position_update_members position_update_frame
        live_frame [OF position_update_frame(1)])
next
  case (ToggleMute S m)
  with assms show ?thesis
    unfolding inv_adapter_def
    by (auto simp: toggle_mute_members toggle_mute_frame
        live_frame [OF toggle_mute_frame(1)])
next
  case (Disconnect S)
  with assms show ?thesis
    unfolding inv_adapter_def
    by (auto simp: disconnect_members disconnect_frame close_socket_live
        live_frame [OF disconnect_frame(1)] split: if_splits)
qed (use assms in simp_all)

lemma inv_live_step:
  assumes "inv_live s" and "inv_known s"
  shows "inv_live (fst (step s e))"
proof (cases e)
  case (Connection S)
  with assms show ?thesis
    unfolding inv_live_def inv_known_def
    by (auto simp: connection_adapter connection_live split: if_splits)
next
  case (JoinRoom S room uid uname)
  with assms(1) show ?thesis
    unfolding inv_live_def
    by (auto simp: join_room_adapter join_room_live join_room_members split: if_splits)
next
  case (PositionUpdate S p)
  with assms(1) show ?thesis
    unfolding inv_live_def
    by (auto simp: position_update_members position_update_frame
        live_frame [OF position_update_frame(1)])
next
  case (ToggleMute S m)
  with assms(1) show ?thesis
    unfolding inv_live_def
    by (auto simp: toggle_mute_members toggle_mute_frame
        live_frame [OF toggle_mute_frame(1)])
next
  case (Disconnect S)
  with assms(1) show ?thesis
    unfolding inv_live_def
    by (auto simp: disconnect_members disconnect_frame close_socket_live
        live_frame [OF disconnect_frame(1)] split: if_splits)
qed (use assms in simp_all)

lemma reachable_invariants:
  assumes "reachable s"
  shows "inv_nonempty s \<and> inv_current s \<and> inv_known s \<and> inv_adapter s \<and> inv_live s"
  using assms
proof (induction rule: reachable.induct)
  case reachable_init
  show ?case
    by (simp add: inv_nonempty_def inv_current_def inv_known_def inv_adapter_def inv_live_def
        init_def live_def socket_of_def members_alt)
next
  case (reachable_step s e)
  then show ?case
    by (simp add: inv_nonempty_step inv_current_step inv_known_step inv_adapter_step inv_live_step)
qed

lemma run_Cons_fst: "fst (run s (e # es)) = fst (run (fst (step s e)) es)"
  by (simp split: prod.splits)

lemma run_Cons_snd: "snd (run s (e # es)) = snd (step s e) @ snd (run (fst (step s e)) es)"
  by (simp split: prod.splits)

lemma reachable_run: "reachable s \<Longrightarrow> reachable (fst (run s es))"
proof (induction es arbitrary: s)
  case Nil
  then show ?case by simp
next
  case (Cons e es)
  from Cons.prems have "reachable (fst (step s e))" by (rule reachable_step)
  then have "reachable (fst (run (fst (step s e)) es))" by (rule Cons.IH)
  then show ?case by (simp only: run_Cons_fst)
qed

lemmas reachable_nonempty = reachable_invariants [THEN conjunct1]
lemmas reachable_current = reachable_invariants [THEN conjunct2, THEN conjunct1]
lemmas reachable_known = reachable_invariants [THEN conjunct2, THEN conjunct2, THEN conjunct1]
lemmas reachable_adapter = reachable_invariants [THEN conjunct2, THEN conjunct2, THEN conjunct2, THEN conjunct1]
lemmas reachable_live = reachable_invariants [THEN conjunct2, THEN conjunct2, THEN conjunct2, THEN conjunct2]

lemmas server_defs = init_def connection_def live_def socket_of_def join_room_def socket_join_def
  close_socket_def disconnect_def position_update_def toggle_mute_def offer_def answer_def
  ice_candidate_def to_emit_def emit_def get_room_def members_def delivered_def Let_def


lemma reachable_two_joined: "reachable two_joined"
  unfolding two_joined_def by (rule reachable_run [OF reachable_init])

lemma reachable_own_id_room: "reachable own_id_room"
  unfolding own_id_room_def by (rule reachable_run [OF reachable_init])

subsection \<open>Room lifecycle\<close>

lemma members_empty_absent:
  assumes "inv_nonempty s" and "members s room = {}"
  shows "rooms s room = None"
  using assms by (cases "rooms s room") (auto simp: inv_nonempty_def members_alt)

lemma join_creates:
  assumes "live s S" and "rooms s room = None"
  shows "rooms (fst (step s (JoinRoom S room uid uname))) room =
           Some [(S, \<lparr>userId = uid, username = uname, user_position = origin, muted = False\<rparr>)]"
  using assms by (simp add: join_room_rooms get_room_def)

lemma disconnect_removes_current:
  assumes "live s S" and "roomId (socket_of s S) = Some room" and "room \<noteq> []"
  shows "S \<notin> members (fst (step s (Disconnect S))) room"
  using assms by (simp add: disconnect_members)

lemma disconnect_last_deletes:
  assumes "members s room = {S}" and "S \<notin> members (fst (step s (Disconnect S))) room"
  shows "rooms (fst (step s (Disconnect S))) room = None"
proof -
  from assms have l: "live s S" by (auto split: if_splits)
  with assms have r: "roomId (socket_of s S) = Some room" "room \<noteq> []"
    by (auto simp: disconnect_members split: if_splits)
  from assms(1) obtain roomUsers where m: "rooms s room = Some roomUsers" "fst ` set roomUsers = {S}"
    by (auto simp: members_alt split: option.splits)
  then have "AList.delete S roomUsers = []" by (simp add: delete_empty_iff)
  with l r m show ?thesis by (simp add: disconnect_def Let_def)
qed

lemma not_member_no_room:
  assumes "inv_current s" and "live s S" and "\<forall>r. S \<notin> members s r"
  shows "roomId (socket_of s S) = None"
  using assms unfolding inv_current_def by (cases "roomId (socket_of s S)") auto

lemma disconnect_no_room:
  assumes "inv_current s" and "\<forall>r. S \<notin> members s r"
  shows "rooms (fst (step s (Disconnect S))) = rooms s \<and> snd (step s (Disconnect S)) = []"
proof (cases "live s S")
  case True
  with assms have "roomId (socket_of s S) = None" by (simp add: not_member_no_room)
  with True show ?thesis by (simp add: disconnect_def)
next
  case False
  then show ?thesis by simp
qed

text \<open>
  What holds of the life of a room in every reachable state: a join by a connected socket
  to a room id without participants finds the id absent and creates the room, holding the
  joiner alone; a disconnect takes a connected socket out of the room its \<^verbatim>\<open>roomId\<close>
  names when that id is not empty; a disconnect that does remove the only participant of a
  room deletes the room; a disconnect by a socket that is a participant of no room leaves
  the registry as it was and emits nothing.
\<close>

lemma room_lifecycle:
  assumes "reachable s"
  shows "(live s S \<and> members s room = {} \<longrightarrow>
            rooms s room = None \<and>
            rooms (fst (step s (JoinRoom S room uid uname))) room =
              Some [(S, \<lparr>userId = uid, username = uname, user_position = origin, muted = False\<rparr>)])
       \<and> (live s S \<and> roomId (socket_of s S) = Some room \<and> room \<noteq> [] \<longrightarrow>
            S \<notin> members (fst (step s (Disconnect S))) room)
       \<and> (members s room = {S} \<and> S \<notin> members (fst (step s (Disconnect S))) room \<longrightarrow>
            rooms (fst (step s (Disconnect S))) room = None)
       \<and> ((\<forall>r. S \<notin> members s r) \<longrightarrow>
            rooms (fst (step s (Disconnect S))) = rooms s \<and> snd (step s (Disconnect S)) = [])"
proof (intro conjI impI)
  assume a: "live s S \<and> members s room = {}"
  then show "rooms s room = None"
    using reachable_nonempty [OF assms] by (simp add: members_empty_absent)
  with a show "rooms (fst (step s (JoinRoom S room uid uname))) room =
      Some [(S, \<lparr>userId = uid, username = uname, user_position = origin, muted = False\<rparr>)]"
    by (intro join_creates) simp_all
next
  assume "live s S \<and> roomId (socket_of s S) = Some room \<and> room \<noteq> []"
  then show "S \<notin> members (fst (step s (Disconnect S))) room"
    by (intro disconnect_removes_current) simp_all
next
  assume "members s room = {S} \<and> S \<notin> members (fst (step s (Disconnect S))) room"
  then show "rooms (fst (step s (Disconnect S))) room = None"
    by (intro disconnect_last_deletes) simp_all
next
  assume a: "\<forall>r. S \<notin> members s r"
  show "rooms (fst (step s (Disconnect S))) = rooms s"
    using disconnect_no_room [OF reachable_current [OF assms] a] by simp
  show "snd (step s (Disconnect S)) = []"
    using disconnect_no_room [OF reachable_current [OF assms] a] by simp
qed

text \<open>
  Claim C6 asks that the disconnect of the last participant of a room delete the room.
  The disconnect handler cleans up only under the guard
  \<^verbatim>\<open>socket.roomId && rooms.has(socket.roomId)\<close>, and only the room \<^verbatim>\<open>socket.roomId\<close>
  names. The connected socket \<open>a\<close> is the only participant of the room whose id is the
  empty string; it disconnects, and the room is still in the registry, still holding
  \<open>a\<close>. Likewise after \<open>a\<close> joined \<open>r1\<close> and then \<open>r2\<close>: it is the only
  participant of \<open>r1\<close>, it disconnects, and \<open>r1\<close> is still in the registry.
\<close>

theorem last_participant_room_kept:
  "live empty_id_joined ''a'' \<and> members empty_id_joined [] = {''a''}
   \<and> \<not> live (fst (step empty_id_joined (Disconnect ''a''))) ''a''
   \<and> rooms (fst (step empty_id_joined (Disconnect ''a''))) [] =
       Some [(''a'', \<lparr>userId = 1, username = ''alice'', user_position = origin, muted = False\<rparr>)]
   \<and> live (fst (run init rejoin_events)) ''a''
   \<and> members (fst (run init rejoin_events)) ''r1'' = {''a''}
   \<and> \<not> live (fst (step (fst (run init rejoin_events)) (Disconnect ''a''))) ''a''
   \<and> rooms (fst (step (fst (run init rejoin_events)) (Disconnect ''a''))) ''r1'' =
       Some [(''a'', \<lparr>userId = 1, username = ''alice'', user_position = origin, muted = False\<rparr>)]"
  by (simp add: empty_id_joined_def rejoin_events_def server_defs)

subsection \<open>What a broadcast reaches\<close>

lemma delivered_single: "delivered [(R, msg)] T = (if T \<in> R then [msg] else [])"
  by (simp add: delivered_def)

lemma delivered_map:
  "delivered (map (\<lambda>sg. (R, f sg)) sgs) T = (if T \<in> R then map f sgs else [])"
  by (induction sgs) (simp_all add: delivered_def)


lemma live_in_own_room:
  assumes "inv_live s" and "live s T"
  shows "T \<in> adapter s T"
  using assms by (simp add: inv_live_def)

lemma adapter_room_members:
  assumes "inv_adapter s" and "T \<in> adapter s room"
  shows "live s T \<and> (T = room \<or> T \<in> members s room)"
  using assms by (simp add: inv_adapter_def)

lemma adapter_empty:
  assumes "inv_adapter s" and "\<not> live s target" and "members s target = {}"
  shows "adapter s target = {}"
  using adapter_room_members [OF assms(1)] assms(2,3) by blast

lemma sender_excepted:
  assumes "reachable s" and "live s S"
  shows "S \<notin> adapter s room - adapter s S"
  using live_in_own_room [OF reachable_live [OF assms(1)] assms(2)] by simp

lemma not_excepted:
  assumes "reachable s" and "T \<noteq> S" and "T \<notin> members s S"
  shows "T \<notin> adapter s S"
  using adapter_room_members [OF reachable_adapter [OF assms(1)], of T S] assms(2,3) by blast

subsection \<open>Position and mute updates\<close>











subsection \<open>Signaling relay\<close>

lemma step_signal:
  assumes "live s S"
  shows "step s (signal_event S target sg) =
           (s, [(adapter s target - adapter s S, signal_message S sg)])"
  using assms by (cases sg) (simp_all add: offer_def answer_def ice_candidate_def to_emit_def)

lemma run_signals:
  assumes "live s S"
  shows "run s (map (signal_event S target) sgs) =
           (s, map (\<lambda>sg. (adapter s target - adapter s S, signal_message S sg)) sgs)"
proof (induction sgs)
  case Nil
  show ?case by simp
next
  case (Cons sg sgs)
  have "run s (signal_event S target sg # map (signal_event S target) sgs) =
          (s, (adapter s target - adapter s S, signal_message S sg)
                # map (\<lambda>sg. (adapter s target - adapter s S, signal_message S sg)) sgs)"
    by (simp only: run.simps step_signal [OF assms] Cons.IH prod.case append.simps)
  then show ?case by simp
qed

text \<open>
  Claim C8, as the code has it. In a reachable state, let a connected socket \<open>S\<close> send
  any sequence of offers, answers and candidates addressed to \<open>target\<close>. The state is
  unchanged (nothing is stored or queued) and \<open>S\<close> receives nothing. If \<open>target\<close>
  names a connected socket that is not \<open>S\<close> and has not joined a room named by the id of
  \<open>S\<close>, that socket receives exactly the forwarded messages, each once, in the order
  sent, each with its payload and the id of \<open>S\<close>. If \<open>target\<close> names no connected
  socket and no room that has a participant, no socket receives anything.
\<close>

theorem relay_forward:
  assumes "reachable s" and "live s S"
  shows "(case run s (map (signal_event S target) sgs) of (s', out) \<Rightarrow>
            s' = s \<and> delivered out S = []
            \<and> (live s target \<and> target \<noteq> S \<and> target \<notin> members s S \<longrightarrow>
                  delivered out target = map (signal_message S) sgs)
            \<and> (\<not> live s target \<and> members s target = {} \<longrightarrow> (\<forall>T. delivered out T = [])))"
proof -
  have a: "live s target \<and> target \<noteq> S \<and> target \<notin> members s S \<longrightarrow>
             target \<in> adapter s target - adapter s S"
    using live_in_own_room [OF reachable_live [OF assms(1)], of target]
      not_excepted [OF assms(1), of target S] by blast
  have b: "\<not> live s target \<and> members s target = {} \<longrightarrow> adapter s target = {}"
    using adapter_empty [OF reachable_adapter [OF assms(1)]] by simp
  note x = sender_excepted [OF assms, of target]
  show ?thesis
    unfolding run_signals [OF assms(2)] using a b x by (auto simp: delivered_map)
qed

text \<open>An offer and two candidates from \<open>a\<close> to \<open>b\<close>, and an answer from \<open>a\<close> to
  an id that names nothing.\<close>

theorem relay_forward_witness:
  "reachable two_joined \<and> live two_joined ''a'' \<and> live two_joined ''b''
   \<and> ''b'' \<notin> members two_joined ''a''
   \<and> fst (run two_joined [Offer ''a'' ''b'' ''sdp'', IceCandidate ''a'' ''b'' ''c1'', IceCandidate ''a'' ''b'' ''c2''])
       = two_joined
   \<and> delivered (snd (run two_joined
        [Offer ''a'' ''b'' ''sdp'', IceCandidate ''a'' ''b'' ''c1'', IceCandidate ''a'' ''b'' ''c2''])) ''b''
       = [OfferMsg ''sdp'' ''a'', IceCandidateMsg ''c1'' ''a'', IceCandidateMsg ''c2'' ''a'']
   \<and> delivered (snd (run two_joined
        [Offer ''a'' ''b'' ''sdp'', IceCandidate ''a'' ''b'' ''c1'', IceCandidate ''a'' ''b'' ''c2''])) ''a'' = []
   \<and> \<not> live two_joined ''gone'' \<and> members two_joined ''gone'' = {}
   \<and> fst (run two_joined [Answer ''a'' ''gone'' ''sdp'']) = two_joined
   \<and> delivered (snd (run two_joined [Answer ''a'' ''gone'' ''sdp''])) ''b'' = []
   \<and> delivered (snd (run two_joined [Answer ''a'' ''gone'' ''sdp''])) ''a'' = []"
proof -
  have t1: "live two_joined ''a''" and t2: "live two_joined ''b''"
    and t3: "\<not> live two_joined ''gone''" and t4: "members two_joined ''gone'' = {}"
    and t5: "''b'' \<notin> members two_joined ''a''"
    by (auto simp: two_joined_def server_defs)
  note a = relay_forward [OF reachable_two_joined t1, of "''b''"
      "[SigOffer ''sdp'', SigCandidate ''c1'', SigCandidate ''c2'']", unfolded case_prod_beta]
  note b = relay_forward [OF reachable_two_joined t1, of "''gone''" "[SigAnswer ''sdp'']",
      unfolded case_prod_beta]
  show ?thesis
    using a b t1 t2 t3 t4 t5 reachable_two_joined by (simp del: step.simps run.simps)
qed

text \<open>
  Claim C8 as worded promises delivery whenever the target names a live connection, and a
  drop whenever the target is gone. The connected socket \<open>a\<close> is the target of its own
  offer and does not receive it. The connected socket \<open>b\<close>, having joined the room
  named by the id of \<open>a\<close>, is the target of an offer of \<open>a\<close> and does not receive it.
  And an offer of \<open>a\<close> to the id of the disconnected socket \<open>c\<close> is not dropped: it
  reaches \<open>b\<close>, who joined the room of that name.
\<close>

theorem relay_forward_counterexample:
  "live fresh_socket ''a''
   \<and> delivered (snd (step fresh_socket (Offer ''a'' ''a'' ''sdp''))) ''a'' = []
   \<and> live own_id_room ''a'' \<and> live own_id_room ''b''
   \<and> delivered (snd (step own_id_room (Offer ''a'' ''b'' ''sdp''))) ''b'' = []
   \<and> live gone_id_room ''a'' \<and> \<not> live gone_id_room ''c''
   \<and> delivered (snd (step gone_id_room (Offer ''a'' ''c'' ''sdp''))) ''b'' = [OfferMsg ''sdp'' ''a'']"
proof -
  have "live fresh_socket ''a''"
    "delivered (snd (step fresh_socket (Offer ''a'' ''a'' ''sdp''))) ''a'' = []"
    by (simp_all add: fresh_socket_def server_defs)
  moreover have "live own_id_room ''a''" "live own_id_room ''b''"
    "delivered (snd (step own_id_room (Offer ''a'' ''b'' ''sdp''))) ''b'' = []"
    by (auto simp: own_id_room_def server_defs)
  moreover have "live gone_id_room ''a''" "\<not> live gone_id_room ''c''"
    "delivered (snd (step gone_id_room (Offer ''a'' ''c'' ''sdp''))) ''b'' = [OfferMsg ''sdp'' ''a'']"
    by (auto simp: gone_id_room_def server_defs)
  ultimately show ?thesis by blast
qed

text \<open>
  Claim C9. A forward by a connected socket \<open>S\<close> addressed to its own id changes nothing
  and is delivered to no one: the broadcast addresses the adapter room named by the id of
  \<open>S\<close> and excepts that same room, so the one emission has no recipient, and no socket,
  \<open>S\<close> included, receives the message.
\<close>

theorem self_forward_dropped:
  assumes "live s S"
  shows "(case step s (signal_event S S sg) of (s', out) \<Rightarrow>
            s' = s \<and> out = [({}, signal_message S sg)] \<and> (\<forall>T. delivered out T = []))"
  unfolding step_signal [OF assms] by (simp add: delivered_single)

text \<open>Socket \<open>a\<close> sends an offer to itself, with \<open>b\<close> in a room with it, and with
  \<open>b\<close> in the room named by the id of \<open>a\<close>.\<close>

theorem self_forward_dropped_witness:
  "live two_joined ''a''
   \<and> step two_joined (Offer ''a'' ''a'' ''sdp'') = (two_joined, [({}, OfferMsg ''sdp'' ''a'')])
   \<and> delivered (snd (step two_joined (Offer ''a'' ''a'' ''sdp''))) ''a'' = []
   \<and> delivered (snd (step two_joined (Offer ''a'' ''a'' ''sdp''))) ''b'' = []
   \<and> live own_id_room ''a'' \<and> ''b'' \<in> adapter own_id_room ''a''
   \<and> step own_id_room (IceCandidate ''a'' ''a'' ''c1'') = (own_id_room, [({}, IceCandidateMsg ''c1'' ''a'')])
   \<and> delivered (snd (step own_id_room (IceCandidate ''a'' ''a'' ''c1''))) ''b'' = []"
proof -
  have t1: "live two_joined ''a''" and o1: "live own_id_room ''a''"
    and o2: "''b'' \<in> adapter own_id_room ''a''"
    by (auto simp: two_joined_def own_id_room_def server_defs)
  note a = self_forward_dropped [OF t1, of "SigOffer ''sdp''", unfolded case_prod_beta]
  note b = self_forward_dropped [OF o1, of "SigCandidate ''c1''", unfolded case_prod_beta]
  show ?thesis
    using a b t1 o1 o2 by (simp del: step.simps add: prod_eq_iff delivered_single)
qed

subsection \<open>Joining a second room\<close>

text \<open>
  As long as no socket joins twice and no room id is empty, the registry is exact: the
  participants of a room are the connected sockets that joined it, and a socket is a
  participant of one room at most.
\<close>

lemma exact_registry_init: "exact_registry init"
  by (simp add: exact_registry_def init_def live_def socket_of_def members_alt)

lemma exact_registry_step:
  assumes "exact_registry s" and "first_join s e"
  shows "exact_registry (fst (step s e))"
proof (cases e)
  case (Connection S)
  with assms show ?thesis
    unfolding exact_registry_def
    by (auto simp: connection_live connection_roomId socket_of_None)
next
  case (JoinRoom S room uid uname)
  with assms show ?thesis
    unfolding exact_registry_def
    by (auto simp: join_room_live join_room_roomId join_room_members)
next
  case (PositionUpdate S p)
  with assms show ?thesis
    unfolding exact_registry_def
    by (auto simp: position_update_members live_frame [OF position_update_frame(1)]
        roomId_frame [OF position_update_frame(1)])
next
  case (ToggleMute S m)
  with assms show ?thesis
    unfolding exact_registry_def
    by (auto simp: toggle_mute_members live_frame [OF toggle_mute_frame(1)]
        roomId_frame [OF toggle_mute_frame(1)])
next
  case (Disconnect S)
  with assms show ?thesis
    unfolding exact_registry_def
    by (auto simp: disconnect_members live_frame [OF disconnect_frame(1)]
        roomId_frame [OF disconnect_frame(1)] close_socket_live)
qed (use assms in simp_all)

lemma single_join_registry:
  assumes "reachable_once s"
  shows "members s room = {S. live s S \<and> roomId (socket_of s S) = Some room}"
proof -
  from assms have "exact_registry s"
    by (induction rule: reachable_once.induct) (simp_all add: exact_registry_init exact_registry_step)
  then show ?thesis by (auto simp: exact_registry_def)
qed

lemma single_join_one_room:
  assumes "reachable_once s" and "S \<in> members s room" and "S \<in> members s room'"
  shows "room = room'"
  using assms by (simp add: single_join_registry)

text \<open>
  Claim C3 asks that the participant set of a room be exactly the connections that joined
  it and have not disconnected. The join handler overwrites \<^verbatim>\<open>socket.roomId\<close> without
  leaving the room joined before, and the disconnect handler cleans only the room
  \<^verbatim>\<open>socket.roomId\<close> names: after socket \<open>a\<close> joins \<open>r1\<close>, joins \<open>r2\<close> and
  disconnects, room \<open>r2\<close> is gone and \<open>a\<close>, no longer connected, is still a
  participant of \<open>r1\<close>.
\<close>

theorem stale_member_after_disconnect:
  "\<not> live (fst (run init (rejoin_events @ [Disconnect ''a'']))) ''a''
   \<and> members (fst (run init (rejoin_events @ [Disconnect ''a'']))) ''r1'' = {''a''}
   \<and> rooms (fst (run init (rejoin_events @ [Disconnect ''a'']))) ''r2'' = None"
  by (simp add: rejoin_events_def server_defs)

text \<open>
  Claim C4 asks that a connection be a participant of at most one room and that its
  recorded room id agree with its membership. After the connected socket \<open>a\<close> joins
  \<open>r1\<close> and then \<open>r2\<close> it is a participant of both, while its \<^verbatim>\<open>roomId\<close> is
  \<open>r2\<close>.
\<close>

theorem member_of_two_rooms:
  "live (fst (run init rejoin_events)) ''a''
   \<and> members (fst (run init rejoin_events)) ''r1'' = {''a''}
   \<and> members (fst (run init rejoin_events)) ''r2'' = {''a''}
   \<and> roomId (socket_of (fst (run init rejoin_events)) ''a'') = Some ''r2''"
  by (simp add: rejoin_events_def server_defs)

end
